theory Spec2Isabelle
  imports Complex_Main "HOL-Library.Word"
begin

section \<open>Numeric model and engine value types\<close>

text \<open>
  The plugin computes with the C++ types \<^verbatim>\<open>float\<close> and \<^verbatim>\<open>double\<close>. Finite values of
  both are modelled by the type \<^typ>\<open>real\<close> with exact arithmetic: rounding, overflow and
  the special values are outside this model, and a division by zero (which the code
  evaluates to an infinity or a NaN) is only ever stated about where the divisor is
  known to be non-zero. Splat validation is about non-finite values, so the splat
  record further down uses a type that adds the special values to the reals.
  The 32-bit integers of the code are modelled by \<^typ>\<open>int\<close>; no claim reaches a value
  near \<open>2 ^ 31\<close>.

  \<^verbatim>\<open>FVector\<close> is the engine's \<^verbatim>\<open>TVector<double>\<close>: three components.
\<close>

datatype 'a TVector = TVector (vec_X: 'a) (vec_Y: 'a) (vec_Z: 'a)

type_synonym FVector = "real TVector"

text \<open>Component-wise arithmetic of \<^verbatim>\<open>FVector\<close> (the C++ operators \<^verbatim>\<open>+\<close>, binary and unary \<^verbatim>\<open>-\<close>).\<close>

definition vec_add :: "FVector \<Rightarrow> FVector \<Rightarrow> FVector" where
  "vec_add a b = TVector (vec_X a + vec_X b) (vec_Y a + vec_Y b) (vec_Z a + vec_Z b)"

definition vec_sub :: "FVector \<Rightarrow> FVector \<Rightarrow> FVector" where
  "vec_sub a b = TVector (vec_X a - vec_X b) (vec_Y a - vec_Y b) (vec_Z a - vec_Z b)"



text \<open>\<^verbatim>\<open>FMath::Clamp(X, Min, Max)\<close> of the engine: \<^verbatim>\<open>Max(Min(X, MaxValue), MinValue)\<close>.\<close>

definition FMath_Clamp :: "real \<Rightarrow> real \<Rightarrow> real \<Rightarrow> real" where
  "FMath_Clamp x lo hi = max (min x hi) lo"


section \<open>CoordinateConverter\<close>






section \<open>DepthExtractor\<close>

definition SceneDepthToLinear :: "real \<Rightarrow> real \<Rightarrow> real \<Rightarrow> real" where
  "SceneDepthToLinear SceneDepth NearPlane FarPlane =
     (if SceneDepth \<ge> 1 then NearPlane
      else if SceneDepth \<le> 0 then FarPlane
      else FMath_Clamp (NearPlane / SceneDepth) NearPlane FarPlane)"

text \<open>
  The clamp of the specification's wording, \<open>clamp(v, lo, hi)\<close>: \<open>lo\<close> below \<open>lo\<close>, \<open>hi\<close> above
  \<open>hi\<close>, the value itself in between.
\<close>

definition spec_clamp :: "real \<Rightarrow> real \<Rightarrow> real \<Rightarrow> real" where
  "spec_clamp v lo hi = (if v < lo then lo else if v > hi then hi else v)"


section \<open>Engine strings and formatted output\<close>

text \<open>
  \<^verbatim>\<open>FString\<close> is modelled by \<^typ>\<open>string\<close>. \<^verbatim>\<open>FString::Printf\<close> is used by the plugin with the
  conversions \<^verbatim>\<open>%d\<close>, \<^verbatim>\<open>%0*d\<close> and \<^verbatim>\<open>%.Nf\<close> only; each is modelled by a function of its
  own, and a format string by the concatenation of its literal pieces and conversions.
\<close>

definition digit_char :: "nat \<Rightarrow> char" where
  "digit_char d = ''0123456789'' ! d"

definition is_digit :: "char \<Rightarrow> bool" where
  "is_digit c = (c \<in> set ''0123456789'')"

fun dec_digits :: "nat \<Rightarrow> string" where
  "dec_digits n =
     (if n < 10 then [digit_char n] else dec_digits (n div 10) @ [digit_char (n mod 10)])"

declare dec_digits.simps [simp del]

text \<open>\<^verbatim>\<open>%d\<close>: an optional minus sign and the decimal digits.\<close>

definition Printf_d :: "int \<Rightarrow> string" where
  "Printf_d i = (if i < 0 then CHR ''-'' # dec_digits (nat (- i)) else dec_digits (nat i))"


text \<open>
  \<^verbatim>\<open>%.Nf\<close>: the value rounded to \<open>N\<close> decimals (to nearest, a tie to the even neighbour),
  printed as sign, integer digits, point and exactly \<open>N\<close> fraction digits.
\<close>

definition round_half_even :: "real \<Rightarrow> int" where
  "round_half_even y =
     (let f = \<lfloor>y\<rfloor>; r = y - of_int f
      in if r < 1/2 then f else if r > 1/2 then f + 1 else if even f then f else f + 1)"

definition Printf_f :: "nat \<Rightarrow> real \<Rightarrow> string" where
  "Printf_f prec x =
     (let n = nat (round_half_even (\<bar>x\<bar> * 10 ^ prec));
          ip = dec_digits (n div 10 ^ prec);
          fp = dec_digits (n mod 10 ^ prec)
      in (if x < 0 then ''-'' else []) @ ip @ ''.'' @
         replicate (prec - length fp) CHR ''0'' @ fp)"

text \<open>
  \<^verbatim>\<open>FString::ParseIntoArray(Out, Delim, bCullEmpty = true)\<close> with a one-character delimiter:
  the pieces between delimiters, the empty ones dropped.
\<close>

fun split_on :: "char \<Rightarrow> string \<Rightarrow> string list" where
  "split_on d [] = [[]]"
| "split_on d (c # cs) =
     (if c = d then [] # split_on d cs
      else (case split_on d cs of [] \<Rightarrow> [[c]] | t # ts \<Rightarrow> (c # t) # ts))"

definition ParseIntoArray :: "string \<Rightarrow> char \<Rightarrow> string list" where
  "ParseIntoArray s d = filter (\<lambda>t. t \<noteq> []) (split_on d s)"

text \<open>
  A token in fixed-point notation with exactly \<open>N\<close> decimals: an optional minus sign, at
  least one digit, a point, \<open>N\<close> digits.
\<close>

definition is_fixed_point :: "nat \<Rightarrow> string \<Rightarrow> bool" where
  "is_fixed_point N t =
     (let b = (case t of [] \<Rightarrow> [] | c # r \<Rightarrow> if c = CHR ''-'' then r else t)
      in N + 2 \<le> length b
         \<and> b ! (length b - Suc N) = CHR ''.''
         \<and> list_all is_digit (take (length b - Suc N) b)
         \<and> list_all is_digit (drop (length b - N) b))"


section \<open>CameraIntrinsics\<close>

text \<open>The enumeration \<^verbatim>\<open>EColmapCameraModel\<close> and the values its enumerators are given.\<close>

datatype EColmapCameraModel =
  SIMPLE_PINHOLE | PINHOLE | SIMPLE_RADIAL | RADIAL | OPENCV | FULL_OPENCV

fun EColmapCameraModel_value :: "EColmapCameraModel \<Rightarrow> int" where
  "EColmapCameraModel_value SIMPLE_PINHOLE = 0"
| "EColmapCameraModel_value PINHOLE = 1"
| "EColmapCameraModel_value SIMPLE_RADIAL = 2"
| "EColmapCameraModel_value RADIAL = 3"
| "EColmapCameraModel_value OPENCV = 4"
| "EColmapCameraModel_value FULL_OPENCV = 6"

record FCameraIntrinsics =
  Width :: int
  Height :: int
  FocalLengthX :: real
  FocalLengthY :: real
  PrincipalPointX :: real
  PrincipalPointY :: real
  K1 :: real
  K2 :: real
  P1 :: real
  P2 :: real
  CameraModel :: EColmapCameraModel

definition GetColmapParamsString :: "FCameraIntrinsics \<Rightarrow> string" where
  "GetColmapParamsString c =
     (case CameraModel c of
        SIMPLE_PINHOLE \<Rightarrow>
          Printf_f 10 (FocalLengthX c) @ '' '' @ Printf_f 10 (PrincipalPointX c) @ '' '' @
          Printf_f 10 (PrincipalPointY c)
      | PINHOLE \<Rightarrow>
          Printf_f 10 (FocalLengthX c) @ '' '' @ Printf_f 10 (FocalLengthY c) @ '' '' @
          Printf_f 10 (PrincipalPointX c) @ '' '' @ Printf_f 10 (PrincipalPointY c)
      | SIMPLE_RADIAL \<Rightarrow>
          Printf_f 10 (FocalLengthX c) @ '' '' @ Printf_f 10 (PrincipalPointX c) @ '' '' @
          Printf_f 10 (PrincipalPointY c) @ '' '' @ Printf_f 10 (K1 c)
      | RADIAL \<Rightarrow>
          Printf_f 10 (FocalLengthX c) @ '' '' @ Printf_f 10 (PrincipalPointX c) @ '' '' @
          Printf_f 10 (PrincipalPointY c) @ '' '' @ Printf_f 10 (K1 c) @ '' '' @
          Printf_f 10 (K2 c)
      | OPENCV \<Rightarrow>
          Printf_f 10 (FocalLengthX c) @ '' '' @ Printf_f 10 (FocalLengthY c) @ '' '' @
          Printf_f 10 (PrincipalPointX c) @ '' '' @ Printf_f 10 (PrincipalPointY c) @ '' '' @
          Printf_f 10 (K1 c) @ '' '' @ Printf_f 10 (K2 c) @ '' '' @
          Printf_f 10 (P1 c) @ '' '' @ Printf_f 10 (P2 c)
      | FULL_OPENCV \<Rightarrow>
          Printf_f 10 (FocalLengthX c) @ '' '' @ Printf_f 10 (FocalLengthY c) @ '' '' @
          Printf_f 10 (PrincipalPointX c) @ '' '' @ Printf_f 10 (PrincipalPointY c) @ '' '' @
          Printf_f 10 (K1 c) @ '' '' @ Printf_f 10 (K2 c) @ '' '' @
          Printf_f 10 (P1 c) @ '' '' @ Printf_f 10 (P2 c) @ '' 0.0 0.0 0.0 0.0'')"

definition GetColmapModelId :: "FCameraIntrinsics \<Rightarrow> int" where
  "GetColmapModelId c = EColmapCameraModel_value (CameraModel c)"

text \<open>
  Modelled from the spec: the fixed parameter arity of each camera model (3, 4, 4, 5, 8,
  12), which the header comment of \<^verbatim>\<open>CameraIntrinsics.h\<close> repeats. The tests call a
  \<^verbatim>\<open>GetColmapParamCount\<close> for it that the sources do not define.
\<close>

fun model_arity :: "EColmapCameraModel \<Rightarrow> nat" where
  "model_arity SIMPLE_PINHOLE = 3"
| "model_arity PINHOLE = 4"
| "model_arity SIMPLE_RADIAL = 4"
| "model_arity RADIAL = 5"
| "model_arity OPENCV = 8"
| "model_arity FULL_OPENCV = 12"


section \<open>ColmapWriter: the binary camera file\<close>

record FColmapCamera =
  CameraId :: int
  Intrinsics :: FCameraIntrinsics
  bIsShared :: bool
  Model :: string
  cam_Width :: int
  cam_Height :: int
  Params :: string

text \<open>
  The writer appends the object representation of typed variables to a byte array. The
  model keeps each appended variable as a typed field: the integer ones as machine words
  (the conversion from \<^verbatim>\<open>int32\<close> is the C++ one, modulo the width), a \<^verbatim>\<open>double\<close> by its
  value. The byte array is the concatenation of the fields in order, each of its size.
\<close>

datatype bin_field = U64 "64 word" | U32 "32 word" | I32 "32 word" | F64 real

fun field_size :: "bin_field \<Rightarrow> nat" where
  "field_size (U64 _) = 8"
| "field_size (U32 _) = 4"
| "field_size (I32 _) = 4"
| "field_size (F64 _) = 8"

text \<open>The \<^verbatim>\<open>switch\<close> of \<^verbatim>\<open>WriteCamerasBinary\<close> that fills the array \<^verbatim>\<open>Params\<close>.\<close>

definition WriteCamerasBinary_Params :: "FCameraIntrinsics \<Rightarrow> real list" where
  "WriteCamerasBinary_Params c =
     (case CameraModel c of
        SIMPLE_PINHOLE \<Rightarrow> [FocalLengthX c, PrincipalPointX c, PrincipalPointY c]
      | PINHOLE \<Rightarrow> [FocalLengthX c, FocalLengthY c, PrincipalPointX c, PrincipalPointY c]
      | OPENCV \<Rightarrow> [FocalLengthX c, FocalLengthY c, PrincipalPointX c, PrincipalPointY c,
                   K1 c, K2 c, P1 c, P2 c]
      | _ \<Rightarrow> [FocalLengthX c, FocalLengthY c, PrincipalPointX c, PrincipalPointY c])"

text \<open>The body of the loop over the cameras: the fields appended for one camera.\<close>

definition WriteCamerasBinary_Camera :: "FColmapCamera \<Rightarrow> bin_field list" where
  "WriteCamerasBinary_Camera Cam =
     [U32 (word_of_int (CameraId Cam)),
      I32 (word_of_int (GetColmapModelId (Intrinsics Cam))),
      U64 (word_of_int (Width (Intrinsics Cam))),
      U64 (word_of_int (Height (Intrinsics Cam)))]
     @ map F64 (WriteCamerasBinary_Params (Intrinsics Cam))"

text \<open>The array \<^verbatim>\<open>Data\<close> that \<^verbatim>\<open>WriteCamerasBinary\<close> builds.\<close>

definition WriteCamerasBinary_Data :: "FColmapCamera list \<Rightarrow> bin_field list" where
  "WriteCamerasBinary_Data Cameras =
     U64 (word_of_int (int (length Cameras))) # concat (map WriteCamerasBinary_Camera Cameras)"

text \<open>
  \<^verbatim>\<open>WriteCamerasBinary\<close>: the array is handed to \<^verbatim>\<open>FFileHelper::SaveArrayToFile\<close>, whose
  answer (the file system's) is the result; it is a parameter of the model.
\<close>

definition WriteCamerasBinary ::
  "(bin_field list \<Rightarrow> string \<Rightarrow> bool) \<Rightarrow> string \<Rightarrow> FColmapCamera list \<Rightarrow> bool" where
  "WriteCamerasBinary SaveArrayToFile FilePath Cameras =
     SaveArrayToFile (WriteCamerasBinary_Data Cameras) FilePath"


text \<open>
  The ordered parameter list of each model, as the header comment of
  \<^verbatim>\<open>CameraIntrinsics.h\<close> gives it (\<open>f, cx, cy\<close>; \<open>fx, fy, cx, cy\<close>; \<open>f, cx, cy, k1\<close>;
  \<open>f, cx, cy, k1, k2\<close>; \<open>fx, fy, cx, cy, k1, k2, p1, p2\<close>), restricted to the
  coefficients the structure tracks: \<open>k3 .. k6\<close> of FULL_OPENCV are not fields of it.
\<close>

definition tracked_params :: "FCameraIntrinsics \<Rightarrow> real list" where
  "tracked_params c =
     (case CameraModel c of
        SIMPLE_PINHOLE \<Rightarrow> [FocalLengthX c, PrincipalPointX c, PrincipalPointY c]
      | PINHOLE \<Rightarrow> [FocalLengthX c, FocalLengthY c, PrincipalPointX c, PrincipalPointY c]
      | SIMPLE_RADIAL \<Rightarrow> [FocalLengthX c, PrincipalPointX c, PrincipalPointY c, K1 c]
      | RADIAL \<Rightarrow> [FocalLengthX c, PrincipalPointX c, PrincipalPointY c, K1 c, K2 c]
      | OPENCV \<Rightarrow> [FocalLengthX c, FocalLengthY c, PrincipalPointX c, PrincipalPointY c,
                   K1 c, K2 c, P1 c, P2 c]
      | FULL_OPENCV \<Rightarrow> [FocalLengthX c, FocalLengthY c, PrincipalPointX c, PrincipalPointY c,
                   K1 c, K2 c, P1 c, P2 c])"

text \<open>
  The intrinsics the constructor \<^verbatim>\<open>FCameraIntrinsics(1920, 1080, 90.0f)\<close> of the tests
  builds (focal length \<open>960 / tan 45\<degree> = 960\<close>), with the camera model set afterwards.
\<close>

definition test_intrinsics :: "EColmapCameraModel \<Rightarrow> FCameraIntrinsics" where
  "test_intrinsics m =
     \<lparr>Width = 1920, Height = 1080, FocalLengthX = 960, FocalLengthY = 960,
      PrincipalPointX = 960, PrincipalPointY = 540, K1 = 0, K2 = 0, P1 = 0, P2 = 0,
      CameraModel = m\<rparr>"

definition test_camera :: "EColmapCameraModel \<Rightarrow> FColmapCamera" where
  "test_camera m =
     \<lparr>CameraId = 1, Intrinsics = test_intrinsics m, bIsShared = True,
      Model = [], cam_Width = 1920, cam_Height = 1080, Params = []\<rparr>"


section \<open>PlyWriter: colours and spherical harmonics\<close>

text \<open>\<^verbatim>\<open>FColor\<close>: four \<^verbatim>\<open>uint8\<close> channels.\<close>

datatype FColor = FColor (col_R: "8 word") (col_G: "8 word") (col_B: "8 word") (col_A: "8 word")







section \<open>Engine rotations, transforms and the math library\<close>

text \<open>
  \<^verbatim>\<open>FRotator(Pitch, Yaw, Roll)\<close>, \<^verbatim>\<open>FQuat(X, Y, Z, W)\<close> (the engine's
  \<^verbatim>\<open>TQuat<double>\<close>), \<^verbatim>\<open>FMatrix\<close> (four rows, each an
  \<^verbatim>\<open>FPlane\<close>) and \<^verbatim>\<open>FTransform\<close> (rotation and location; the scale is never touched).
\<close>

datatype FRotator = FRotator (rot_Pitch: real) (rot_Yaw: real) (rot_Roll: real)

datatype 'a TQuat = TQuat (quat_X: 'a) (quat_Y: 'a) (quat_Z: 'a) (quat_W: 'a)

type_synonym FQuat = "real TQuat"

datatype FPlane = FPlane real real real real

datatype FMatrix = FMatrix FPlane FPlane FPlane FPlane

datatype FTransform = FTransform (GetRotation: FQuat) (GetLocation: FVector)

definition ZeroVector :: FVector where
  "ZeroVector = TVector 0 0 0"


definition ZeroRotator :: FRotator where
  "ZeroRotator = FRotator 0 0 0"

text \<open>
  The routines of the engine's math library that the plugin calls and whose code is not
  part of the plugin. Every function below that calls one of them takes the library as its
  first argument, and every theorem holds for every library.
\<close>

record EngineMath =
  Vector_GetSafeNormal :: "FVector \<Rightarrow> FVector"
  Vector_Rotation :: "FVector \<Rightarrow> FRotator"
  Quat_Rotator :: "FQuat \<Rightarrow> FRotator"
  Rotator_Quaternion :: "FRotator \<Rightarrow> FQuat"
  Quat_Inverse :: "FQuat \<Rightarrow> FQuat"
  Quat_Normalize :: "FQuat \<Rightarrow> FQuat"
  RotationMatrix_Make :: "FQuat \<Rightarrow> FMatrix"
  RotationMatrix_MakeFromX :: "FVector \<Rightarrow> FMatrix"
  Matrix_Multiply :: "FMatrix \<Rightarrow> FMatrix \<Rightarrow> FMatrix"
  Matrix_ToQuat :: "FMatrix \<Rightarrow> FQuat"
  Matrix_TransformVector :: "FMatrix \<Rightarrow> FVector \<Rightarrow> FVector"
  FMath_Asin :: "real \<Rightarrow> real"
  FMath_Atan2 :: "real \<Rightarrow> real \<Rightarrow> real"
  FMath_Fmod :: "real \<Rightarrow> real \<Rightarrow> real"

text \<open>
  One library, for evaluating closed examples: every rotation in it is the identity, so
  its matrices are the identity matrix and vectors stay as they are. The examples
  evaluated with it are about counts, identifiers, names and the elevation filter, which
  do not depend on the rotation routines.
\<close>

definition sample_engine :: EngineMath where
  "sample_engine =
     \<lparr>Vector_GetSafeNormal = (\<lambda>v. v),
      Vector_Rotation = (\<lambda>v. ZeroRotator),
      Quat_Rotator = (\<lambda>q. ZeroRotator),
      Rotator_Quaternion = (\<lambda>r. TQuat 0 0 0 1),
      Quat_Inverse = (\<lambda>q. TQuat (- quat_X q) (- quat_Y q) (- quat_Z q) (quat_W q)),
      Quat_Normalize = (\<lambda>q. q),
      RotationMatrix_Make = (\<lambda>q. FMatrix (FPlane 1 0 0 0) (FPlane 0 1 0 0) (FPlane 0 0 1 0) (FPlane 0 0 0 1)),
      RotationMatrix_MakeFromX = (\<lambda>v. FMatrix (FPlane 1 0 0 0) (FPlane 0 1 0 0) (FPlane 0 0 1 0) (FPlane 0 0 0 1)),
      Matrix_Multiply = (\<lambda>a b. a),
      Matrix_ToQuat = (\<lambda>m. TQuat 0 0 0 1),
      Matrix_TransformVector = (\<lambda>m v. v),
      FMath_Asin = arcsin,
      FMath_Atan2 = (\<lambda>y x. 0),
      FMath_Fmod = (\<lambda>x y. x - y * of_int \<lfloor>x / y\<rfloor>)\<rparr>"

definition DegreesToRadians :: "real \<Rightarrow> real" where
  "DegreesToRadians d = d * (pi / 180)"

definition RadiansToDegrees :: "real \<Rightarrow> real" where
  "RadiansToDegrees r = r * (180 / pi)"


section \<open>CameraTrajectory\<close>

datatype ECameraTrajectoryType =
  Spherical | Orbital | Spiral | Grid | Custom | Hemisphere | Panoramic360

record FCameraViewpoint =
  Position :: FVector
  Rotation :: FRotator
  ViewpointId :: int
  RingIndex :: int
  RingPosition :: real
  Distance :: real
  ElevationAngle :: real
  AzimuthAngle :: real

text \<open>The default member initialisers of \<^verbatim>\<open>FCameraViewpoint\<close>.\<close>

definition default_viewpoint :: FCameraViewpoint where
  "default_viewpoint =
     \<lparr>Position = ZeroVector, Rotation = ZeroRotator, ViewpointId = 0, RingIndex = 0,
      RingPosition = 0, Distance = 0, ElevationAngle = 0, AzimuthAngle = 0\<rparr>"


record FTrajectoryConfig =
  TrajectoryType :: ECameraTrajectoryType
  FocusPoint :: FVector
  BaseRadius :: real
  NumRings :: int
  ViewsPerRing :: int
  MinElevation :: real
  MaxElevation :: real
  StartAzimuth :: real
  bVaryRadiusPerRing :: bool
  RadiusVariation :: real
  bStaggerRings :: bool
  bLookAtFocusPoint :: bool
  PitchOffset :: real
  CustomWaypoints :: "FTransform list"

text \<open>The default member initialisers of \<^verbatim>\<open>FTrajectoryConfig\<close>.\<close>

definition default_config :: FTrajectoryConfig where
  "default_config =
     \<lparr>TrajectoryType = Orbital, FocusPoint = ZeroVector, BaseRadius = 500, NumRings = 5,
      ViewsPerRing = 36, MinElevation = -30, MaxElevation = 60, StartAzimuth = 0,
      bVaryRadiusPerRing = True, RadiusVariation = 0.15, bStaggerRings = True,
      bLookAtFocusPoint = True, PitchOffset = 0, CustomWaypoints = []\<rparr>"

definition CalculateLookAtRotation ::
  "EngineMath \<Rightarrow> FVector \<Rightarrow> FVector \<Rightarrow> real \<Rightarrow> FRotator" where
  "CalculateLookAtRotation E CameraPosition TargetPosition Offset =
     (let Direction = Vector_GetSafeNormal E (vec_sub TargetPosition CameraPosition);
          LookAtRotation = Vector_Rotation E Direction
      in FRotator (rot_Pitch LookAtRotation + Offset) (rot_Yaw LookAtRotation)
           (rot_Roll LookAtRotation))"

definition SphericalToCartesian :: "real \<Rightarrow> real \<Rightarrow> real \<Rightarrow> FVector \<Rightarrow> FVector" where
  "SphericalToCartesian Radius ElevationDegrees AzimuthDegrees Center =
     (let ElevationRadians = DegreesToRadians ElevationDegrees;
          AzimuthRadians = DegreesToRadians AzimuthDegrees;
          CosElevation = cos ElevationRadians;
          LocalPosition = TVector (Radius * CosElevation * cos AzimuthRadians)
                                  (Radius * CosElevation * sin AzimuthRadians)
                                  (Radius * sin ElevationRadians)
      in vec_add Center LocalPosition)"

definition FibonacciSpherePoint :: "int \<Rightarrow> int \<Rightarrow> real \<Rightarrow> FVector \<Rightarrow> FVector" where
  "FibonacciSpherePoint Index TotalPoints Radius Center =
     (let GoldenRatio = (1 + sqrt 5) / 2;
          Y = 1 - (of_int Index / of_int (TotalPoints - 1)) * 2;
          RadiusAtY = sqrt (1 - Y * Y);
          Theta = 2 * pi * of_int Index / GoldenRatio;
          LocalPosition = TVector (RadiusAtY * cos Theta * Radius)
                                  (RadiusAtY * sin Theta * Radius)
                                  (Y * Radius)
      in vec_add Center LocalPosition)"

text \<open>
  \<^verbatim>\<open>GenerateOrbitalRings\<close>. The two nested \<^verbatim>\<open>for\<close> loops run over \<open>0 \<le> RingIdx < NumRings\<close>
  and \<open>0 \<le> ViewIdx < ViewsPerRing\<close> (no iteration when the bound is not positive) and
  carry the array \<open>Viewpoints\<close> and the counter \<open>ViewpointId\<close>. First the body of the inner
  loop, then the body of the outer one.
\<close>

definition OrbitalRings_view ::
  "EngineMath \<Rightarrow> FTrajectoryConfig \<Rightarrow> int \<Rightarrow> real \<Rightarrow> real \<Rightarrow> real \<Rightarrow> nat
     \<Rightarrow> FCameraViewpoint list \<times> int \<Rightarrow> FCameraViewpoint list \<times> int" where
  "OrbitalRings_view E Config RingIdx Elevation RingRadius AzimuthOffset ViewIdx st =
     (let (Viewpoints, Id) = st;
          Azimuth = AzimuthOffset + (of_nat ViewIdx * 360 / of_int (ViewsPerRing Config));
          Pos = SphericalToCartesian RingRadius Elevation Azimuth (FocusPoint Config);
          Rot = (if bLookAtFocusPoint Config
                 then CalculateLookAtRotation E Pos (FocusPoint Config) (PitchOffset Config)
                 else FRotator (- Elevation) (Azimuth + 90) 0);
          VP = \<lparr>Position = Pos, Rotation = Rot, ViewpointId = Id, RingIndex = RingIdx,
                RingPosition = of_nat ViewIdx / of_int (ViewsPerRing Config),
                Distance = RingRadius, ElevationAngle = Elevation, AzimuthAngle = Azimuth\<rparr>
      in (Viewpoints @ [VP], Id + 1))"

definition OrbitalRings_ring ::
  "EngineMath \<Rightarrow> FTrajectoryConfig \<Rightarrow> real \<Rightarrow> nat
     \<Rightarrow> FCameraViewpoint list \<times> int \<Rightarrow> FCameraViewpoint list \<times> int" where
  "OrbitalRings_ring E Config ElevationStep RingIdx st =
     (let Elevation = MinElevation Config + (ElevationStep * of_nat RingIdx);
          RingRadius =
            (if bVaryRadiusPerRing Config
             then BaseRadius Config *
                  (1 + RadiusVariation Config * sin (of_nat RingIdx * pi / of_int (NumRings Config)))
             else BaseRadius Config);
          AzimuthOffset =
            (if bStaggerRings Config
             then StartAzimuth Config
                  + of_nat (RingIdx mod 2) * ((360 / of_int (ViewsPerRing Config)) / 2)
             else StartAzimuth Config)
      in fold (OrbitalRings_view E Config (int RingIdx) Elevation RingRadius AzimuthOffset)
           [0..<nat (ViewsPerRing Config)] st)"

definition GenerateOrbitalRings :: "EngineMath \<Rightarrow> FTrajectoryConfig \<Rightarrow> FCameraViewpoint list" where
  "GenerateOrbitalRings E Config =
     (let ElevationRange = MaxElevation Config - MinElevation Config;
          ElevationStep = (if NumRings Config > 1
                           then ElevationRange / of_int (NumRings Config - 1) else 0)
      in fst (fold (OrbitalRings_ring E Config ElevationStep) [0..<nat (NumRings Config)] ([], 0)))"

text \<open>
  \<^verbatim>\<open>GenerateSpherical\<close>: the body of the loop either skips the candidate (\<^verbatim>\<open>continue\<close>) or
  appends a viewpoint whose identifier is the current length of the array.
\<close>

definition Spherical_point ::
  "EngineMath \<Rightarrow> FTrajectoryConfig \<Rightarrow> int \<Rightarrow> nat \<Rightarrow> FCameraViewpoint list
     \<Rightarrow> FCameraViewpoint list" where
  "Spherical_point E Config TotalPoints i Viewpoints =
     (let Pos = FibonacciSpherePoint (int i) TotalPoints (BaseRadius Config) (FocusPoint Config);
          LocalPos = vec_sub Pos (FocusPoint Config);
          Elevation = RadiansToDegrees (FMath_Asin E (vec_Z LocalPos / BaseRadius Config))
      in if Elevation < MinElevation Config \<or> Elevation > MaxElevation Config then Viewpoints
         else
           let Rot = (if bLookAtFocusPoint Config
                      then CalculateLookAtRotation E Pos (FocusPoint Config) (PitchOffset Config)
                      else Vector_Rotation E LocalPos);
               VP = default_viewpoint
                      \<lparr>Position := Pos, Rotation := Rot,
                       ViewpointId := int (length Viewpoints),
                       Distance := BaseRadius Config, ElevationAngle := Elevation,
                       AzimuthAngle :=
                         RadiansToDegrees (FMath_Atan2 E (vec_Y LocalPos) (vec_X LocalPos))\<rparr>
           in Viewpoints @ [VP])"

definition GenerateSpherical :: "EngineMath \<Rightarrow> FTrajectoryConfig \<Rightarrow> FCameraViewpoint list" where
  "GenerateSpherical E Config =
     (let TotalPoints = NumRings Config * ViewsPerRing Config
      in fold (Spherical_point E Config TotalPoints) [0..<nat TotalPoints] [])"

text \<open>
  \<^verbatim>\<open>GenerateSpiral\<close>. Without look-at the code leaves the local \<^verbatim>\<open>FRotator Rotation\<close>
  uninitialised; the model puts the zero rotator there.
\<close>

definition Spiral_point ::
  "EngineMath \<Rightarrow> FTrajectoryConfig \<Rightarrow> int \<Rightarrow> nat \<Rightarrow> FCameraViewpoint list
     \<Rightarrow> FCameraViewpoint list" where
  "Spiral_point E Config TotalPoints i Viewpoints =
     (let ElevationRange = MaxElevation Config - MinElevation Config;
          T = of_nat i / of_int (TotalPoints - 1);
          Elevation = MaxElevation Config - (T * ElevationRange);
          Azimuth = StartAzimuth Config + (T * 360 * 3);
          Radius = (if bVaryRadiusPerRing Config
                    then BaseRadius Config * (1 + RadiusVariation Config * sin (T * pi * 2))
                    else BaseRadius Config);
          Pos = SphericalToCartesian Radius Elevation Azimuth (FocusPoint Config);
          Rot = (if bLookAtFocusPoint Config
                 then CalculateLookAtRotation E Pos (FocusPoint Config) (PitchOffset Config)
                 else ZeroRotator);
          VP = default_viewpoint
                 \<lparr>Position := Pos, Rotation := Rot, ViewpointId := int i,
                  Distance := Radius, ElevationAngle := Elevation,
                  AzimuthAngle := FMath_Fmod E Azimuth 360\<rparr>
      in Viewpoints @ [VP])"

definition GenerateSpiral :: "EngineMath \<Rightarrow> FTrajectoryConfig \<Rightarrow> FCameraViewpoint list" where
  "GenerateSpiral E Config =
     (let TotalPoints = ViewsPerRing Config * 3
      in fold (Spiral_point E Config TotalPoints) [0..<nat TotalPoints] [])"

definition GenerateHemisphere :: "EngineMath \<Rightarrow> FTrajectoryConfig \<Rightarrow> FCameraViewpoint list" where
  "GenerateHemisphere E Config =
     GenerateOrbitalRings E
       (Config\<lparr>MinElevation := max 0 (MinElevation Config),
               MaxElevation := min 85 (MaxElevation Config)\<rparr>)"

text \<open>\<^verbatim>\<open>GeneratePanoramic360\<close>: six fixed directions at each position of a straight path.\<close>

definition Panoramic360_Directions :: "FRotator list" where
  "Panoramic360_Directions =
     [FRotator 0 0 0, FRotator 0 90 0, FRotator 0 180 0, FRotator 0 270 0,
      FRotator (-90) 0 0, FRotator 90 0 0]"

definition Panoramic360_direction ::
  "FVector \<Rightarrow> nat \<Rightarrow> nat \<Rightarrow> FCameraViewpoint list \<times> int \<Rightarrow> FCameraViewpoint list \<times> int" where
  "Panoramic360_direction Pos PosIdx DirIdx st =
     (let (Viewpoints, Id) = st;
          VP = default_viewpoint
                 \<lparr>Position := Pos, Rotation := Panoramic360_Directions ! DirIdx,
                  ViewpointId := Id, RingIndex := int PosIdx,
                  RingPosition := of_nat DirIdx / of_nat (length Panoramic360_Directions)\<rparr>
      in (Viewpoints @ [VP], Id + 1))"

definition Panoramic360_position ::
  "FTrajectoryConfig \<Rightarrow> nat \<Rightarrow> FCameraViewpoint list \<times> int \<Rightarrow> FCameraViewpoint list \<times> int" where
  "Panoramic360_position Config PosIdx st =
     (let NumPositions = ViewsPerRing Config;
          PathLength = BaseRadius Config * 2;
          Step = PathLength / of_int (NumPositions - 1);
          Pos = vec_add (FocusPoint Config)
                  (TVector (- PathLength / 2 + Step * of_nat PosIdx) 0 0)
      in fold (Panoramic360_direction Pos PosIdx) [0..<length Panoramic360_Directions] st)"

definition GeneratePanoramic360 :: "FTrajectoryConfig \<Rightarrow> FCameraViewpoint list" where
  "GeneratePanoramic360 Config =
     fst (fold (Panoramic360_position Config) [0..<nat (ViewsPerRing Config)] ([], 0))"

text \<open>The \<^verbatim>\<open>Custom\<close> case of \<^verbatim>\<open>GenerateViewpoints\<close>: one viewpoint per waypoint.\<close>

definition Custom_waypoint ::
  "EngineMath \<Rightarrow> FTrajectoryConfig \<Rightarrow> nat \<Rightarrow> FCameraViewpoint list \<Rightarrow> FCameraViewpoint list" where
  "Custom_waypoint E Config i Result =
     (let WP = CustomWaypoints Config ! i;
          VP = default_viewpoint
                 \<lparr>Position := GetLocation WP, Rotation := Quat_Rotator E (GetRotation WP),
                  ViewpointId := int i\<rparr>
      in Result @ [VP])"

definition GenerateViewpoints :: "EngineMath \<Rightarrow> FTrajectoryConfig \<Rightarrow> FCameraViewpoint list" where
  "GenerateViewpoints E Config =
     (case TrajectoryType Config of
        Orbital \<Rightarrow> GenerateOrbitalRings E Config
      | Spherical \<Rightarrow> GenerateSpherical E Config
      | Spiral \<Rightarrow> GenerateSpiral E Config
      | Hemisphere \<Rightarrow> GenerateHemisphere E Config
      | Panoramic360 \<Rightarrow> GeneratePanoramic360 Config
      | Custom \<Rightarrow>
          fold (Custom_waypoint E Config) [0..<length (CustomWaypoints Config)] []
      | Grid \<Rightarrow> GenerateOrbitalRings E Config)"


section \<open>Properties of viewpoint lists and example configurations\<close>

text \<open>
  Identifiers that count up from 0 along the array; the loop state of the generators (the
  array and the next identifier); viewpoints at a fixed distance from a centre; and the
  configurations the examples are evaluated at.
\<close>

definition ids_consecutive :: "FCameraViewpoint list \<Rightarrow> bool" where
  "ids_consecutive vps = (map ViewpointId vps = map int [0..<length vps])"

definition counter_in_step :: "FCameraViewpoint list \<times> int \<Rightarrow> bool" where
  "counter_in_step st = (ids_consecutive (fst st) \<and> snd st = int (length (fst st)))"

definition spherical_example :: FTrajectoryConfig where
  "spherical_example = default_config\<lparr>TrajectoryType := Spherical, NumRings := 1, ViewsPerRing := 3\<rparr>"






section \<open>CoordinateConverter: rotations and camera transforms\<close>






section \<open>ColmapWriter: image records\<close>









section \<open>Floating-point values with the special values\<close>

text \<open>
  Splat validation asks whether a value is finite, so the fields of a splat are modelled
  by the reals extended with the two infinities and NaN. Arithmetic on finite values is
  exact; the special values propagate as in IEEE 754, and every comparison with a NaN is
  false.
\<close>

datatype double = Finite real | PosInf | NegInf | NaN

fun IsFinite :: "double \<Rightarrow> bool" where
  "IsFinite (Finite _) = True"
| "IsFinite _ = False"

fun dbl_less :: "double \<Rightarrow> double \<Rightarrow> bool" where
  "dbl_less (Finite a) (Finite b) = (a < b)"
| "dbl_less NaN _ = False"
| "dbl_less _ NaN = False"
| "dbl_less NegInf NegInf = False"
| "dbl_less NegInf _ = True"
| "dbl_less PosInf _ = False"
| "dbl_less (Finite _) PosInf = True"
| "dbl_less (Finite _) NegInf = False"

definition dbl_greater :: "double \<Rightarrow> double \<Rightarrow> bool" where
  "dbl_greater a b = dbl_less b a"

fun dbl_neg :: "double \<Rightarrow> double" where
  "dbl_neg (Finite a) = Finite (- a)"
| "dbl_neg PosInf = NegInf"
| "dbl_neg NegInf = PosInf"
| "dbl_neg NaN = NaN"

fun dbl_add :: "double \<Rightarrow> double \<Rightarrow> double" where
  "dbl_add (Finite a) (Finite b) = Finite (a + b)"
| "dbl_add NaN _ = NaN"
| "dbl_add _ NaN = NaN"
| "dbl_add PosInf NegInf = NaN"
| "dbl_add NegInf PosInf = NaN"
| "dbl_add PosInf _ = PosInf"
| "dbl_add NegInf _ = NegInf"
| "dbl_add (Finite _) PosInf = PosInf"
| "dbl_add (Finite _) NegInf = NegInf"

definition dbl_sub :: "double \<Rightarrow> double \<Rightarrow> double" where
  "dbl_sub a b = dbl_add a (dbl_neg b)"

fun dbl_square :: "double \<Rightarrow> double" where
  "dbl_square (Finite a) = Finite (a * a)"
| "dbl_square PosInf = PosInf"
| "dbl_square NegInf = PosInf"
| "dbl_square NaN = NaN"

fun dbl_sqrt :: "double \<Rightarrow> double" where
  "dbl_sqrt (Finite a) = (if a < 0 then NaN else Finite (sqrt a))"
| "dbl_sqrt PosInf = PosInf"
| "dbl_sqrt NegInf = NaN"
| "dbl_sqrt NaN = NaN"

fun dbl_abs :: "double \<Rightarrow> double" where
  "dbl_abs (Finite a) = Finite \<bar>a\<bar>"
| "dbl_abs PosInf = PosInf"
| "dbl_abs NegInf = PosInf"
| "dbl_abs NaN = NaN"

text \<open>\<^verbatim>\<open>FVector::ContainsNaN\<close> of the engine: some component is not finite.\<close>

definition ContainsNaN :: "double TVector \<Rightarrow> bool" where
  "ContainsNaN v = (\<not> IsFinite (vec_X v) \<or> \<not> IsFinite (vec_Y v) \<or> \<not> IsFinite (vec_Z v))"

text \<open>\<^verbatim>\<open>FQuat::Size\<close>: the square root of the sum of the squares of the four components.\<close>

definition Quat_Size :: "double TQuat \<Rightarrow> double" where
  "Quat_Size q =
     dbl_sqrt (dbl_add (dbl_add (dbl_add (dbl_square (quat_X q)) (dbl_square (quat_Y q)))
                          (dbl_square (quat_Z q)))
                 (dbl_square (quat_W q)))"



section \<open>PlyWriter: splats, point clouds and validation\<close>

record FGaussianSplat =
  splat_Position :: "double TVector"
  Normal :: "double TVector"
  SH_DC :: "double TVector"
  SH_Rest :: "double list"
  Opacity :: double
  Scale :: "double TVector"
  splat_Rotation :: "double TQuat"
  Color :: FColor


text \<open>The default member initialisers and the constructor of \<^verbatim>\<open>FGaussianSplat\<close>.\<close>

definition default_splat :: FGaussianSplat where
  "default_splat =
     \<lparr>splat_Position = TVector (Finite 0) (Finite 0) (Finite 0),
      Normal = TVector (Finite 0) (Finite 0) (Finite 1),
      SH_DC = TVector (Finite 0.5) (Finite 0.5) (Finite 0.5),
      SH_Rest = replicate 45 (Finite 0),
      Opacity = Finite 1,
      Scale = TVector (Finite (-5)) (Finite (-5)) (Finite (-5)),
      splat_Rotation = TQuat (Finite 0) (Finite 0) (Finite 0) (Finite 1),
      Color = FColor 255 255 255 255\<rparr>"

text \<open>
  \<^verbatim>\<open>ValidateSplats\<close>. The loop carries the four counters; its body is \<open>ValidateSplats_splat\<close>.
  The result is the value returned together with the array \<^verbatim>\<open>OutWarnings\<close>.
\<close>

record ValidateCounters =
  InvalidPos :: int
  InvalidOpacity :: int
  InvalidScale :: int
  InvalidRotation :: int

definition ValidateSplats_splat :: "FGaussianSplat \<Rightarrow> ValidateCounters \<Rightarrow> ValidateCounters" where
  "ValidateSplats_splat Splat c =
     (let c1 = (if \<not> ContainsNaN (splat_Position Splat)
                   \<and> \<not> IsFinite (vec_X (splat_Position Splat))
                then c\<lparr>InvalidPos := InvalidPos c + 1\<rparr> else c);
          c2 = (if dbl_less (Opacity Splat) (Finite 0) \<or> dbl_greater (Opacity Splat) (Finite 1)
                then c1\<lparr>InvalidOpacity := InvalidOpacity c1 + 1\<rparr> else c1);
          c3 = (if dbl_greater (vec_X (Scale Splat)) (Finite 10)
                   \<or> dbl_less (vec_X (Scale Splat)) (Finite (-20))
                then c2\<lparr>InvalidScale := InvalidScale c2 + 1\<rparr> else c2);
          QuatLength = Quat_Size (splat_Rotation Splat);
          c4 = (if dbl_greater (dbl_abs (dbl_sub QuatLength (Finite 1))) (Finite 0.01)
                then c3\<lparr>InvalidRotation := InvalidRotation c3 + 1\<rparr> else c3)
      in c4)"

definition ValidateSplats :: "FGaussianSplat list \<Rightarrow> bool \<times> string list" where
  "ValidateSplats Splats =
     (if length Splats = 0 then (False, [''Empty splat array''])
      else
        let c = fold ValidateSplats_splat Splats
                  \<lparr>InvalidPos = 0, InvalidOpacity = 0, InvalidScale = 0, InvalidRotation = 0\<rparr>;
            w1 = (if InvalidPos c > 0
                  then [Printf_d (InvalidPos c) @ '' splats have invalid positions''] else []);
            w2 = (if InvalidOpacity c > 0
                  then [Printf_d (InvalidOpacity c) @ '' splats have invalid opacity values'']
                  else []);
            w3 = (if InvalidScale c > 0
                  then [Printf_d (InvalidScale c) @ '' splats have extreme scale values''] else []);
            w4 = (if InvalidRotation c > 0
                  then [Printf_d (InvalidRotation c) @ '' splats have non-unit rotation quaternions'']
                  else []);
            w5 = (if int (length Splats) < 1000
                  then [''Low splat count ('' @ Printf_d (int (length Splats))
                        @ ''). 10K-1M typical for quality scenes.'']
                  else if int (length Splats) > 10000000
                  then [''Very high splat count ('' @ Printf_d (int (length Splats))
                        @ ''). May impact performance.'']
                  else [])
        in (InvalidPos c = 0, w1 @ w2 @ w3 @ w4 @ w5))"

text \<open>
  What the specification asks of the position check: a splat is to be flagged when some
  component of its position is not finite.
\<close>

definition position_non_finite :: "FGaussianSplat \<Rightarrow> bool" where
  "position_non_finite Splat =
     (\<not> (IsFinite (vec_X (splat_Position Splat)) \<and> IsFinite (vec_Y (splat_Position Splat))
         \<and> IsFinite (vec_Z (splat_Position Splat))))"

definition nan_splat :: FGaussianSplat where
  "nan_splat = default_splat\<lparr>splat_Position := TVector NaN (Finite 0) (Finite 0)\<rparr>"

definition inf_splat :: FGaussianSplat where
  "inf_splat = default_splat\<lparr>splat_Position := TVector PosInf (Finite 0) (Finite 0)\<rparr>"


section \<open>Engine strings: searching, lines and numbers\<close>











section \<open>PlyWriter: writing and header parsing\<close>

text \<open>
  The writers build the file content and hand it to \<^verbatim>\<open>FFileHelper\<close>, whose answer is their
  result. The two routines of the file helper are parameters of the model. A binary file is
  kept as the list of what is appended to the byte array: the header text, \<^verbatim>\<open>float\<close> values
  and single bytes. Messages written to the log are not modelled.
\<close>

datatype ply_field = Text string | F32 double | U8 "8 word"

record FileHelper =
  SaveStringToFile :: "string \<Rightarrow> string \<Rightarrow> bool"
  SaveArrayToFile :: "ply_field list \<Rightarrow> string \<Rightarrow> bool"















section \<open>Position conversion: claim C2\<close>



section \<open>Depth linearisation: claim C4\<close>

text \<open>
  Claim C4. For clip planes with \<open>0 < near < far\<close>, \<open>SceneDepthToLinear d near far\<close> is exactly
  \<open>near\<close> when \<open>d \<ge> 1\<close>, exactly \<open>far\<close> when \<open>d \<le> 0\<close>, and the clamp of \<open>near / d\<close> to
  \<open>[near, far]\<close> when \<open>0 < d < 1\<close>; in that last case the result lies between the planes.
\<close>

theorem C4_scene_depth_to_linear:
  assumes "0 < near" and "near < far"
  shows "(d \<ge> 1 \<longrightarrow> SceneDepthToLinear d near far = near)
       \<and> (d \<le> 0 \<longrightarrow> SceneDepthToLinear d near far = far)
       \<and> (0 < d \<and> d < 1 \<longrightarrow>
            SceneDepthToLinear d near far = spec_clamp (near / d) near far
          \<and> near \<le> SceneDepthToLinear d near far
          \<and> SceneDepthToLinear d near far \<le> far)"
proof (intro conjI impI)
  assume "d \<ge> 1"
  then show "SceneDepthToLinear d near far = near"
    by (simp add: SceneDepthToLinear_def)
next
  assume "d \<le> 0"
  then show "SceneDepthToLinear d near far = far"
    by (simp add: SceneDepthToLinear_def)
next
  assume d: "0 < d \<and> d < 1"
  then show "SceneDepthToLinear d near far = spec_clamp (near / d) near far"
    using assms by (auto simp: SceneDepthToLinear_def FMath_Clamp_def spec_clamp_def)
next
  assume d: "0 < d \<and> d < 1"
  then show "near \<le> SceneDepthToLinear d near far"
    by (simp add: SceneDepthToLinear_def FMath_Clamp_def)
next
  assume d: "0 < d \<and> d < 1"
  then show "SceneDepthToLinear d near far \<le> far"
    using assms by (simp add: SceneDepthToLinear_def FMath_Clamp_def)
qed

theorem C4_scene_depth_to_linear_witness:
  "(0::real) < 10 \<and> (10::real) < 1000
   \<and> SceneDepthToLinear 1 10 1000 = 10
   \<and> SceneDepthToLinear 0 10 1000 = 1000
   \<and> SceneDepthToLinear (1/2) 10 1000 = 20
   \<and> SceneDepthToLinear (1/2) 10 1000 = spec_clamp (10 / (1/2)) 10 1000"
  using C4_scene_depth_to_linear [of 10 1000 "1/2"]
        C4_scene_depth_to_linear [of 10 1000 1]
        C4_scene_depth_to_linear [of 10 1000 0]
  by (simp add: spec_clamp_def)

section \<open>Formatted numbers and tokens: auxiliary facts\<close>

lemma digit_char_is_digit: "d < 10 \<Longrightarrow> is_digit (digit_char d)"
  unfolding is_digit_def digit_char_def by (rule nth_mem) simp

lemma dec_digits_all_digits: "list_all is_digit (dec_digits n)"
proof (induction n rule: dec_digits.induct)
  case (1 n)
  show ?case
  proof (cases "n < 10")
    case True
    then show ?thesis by (subst dec_digits.simps) (simp add: digit_char_is_digit)
  next
    case False
    with 1 show ?thesis by (subst dec_digits.simps) (simp add: digit_char_is_digit)
  qed
qed

lemma dec_digits_nonempty: "dec_digits n \<noteq> []"
  by (subst dec_digits.simps) simp

lemma length_dec_digits: "n < 10 ^ Suc k \<Longrightarrow> length (dec_digits n) \<le> Suc k"
proof (induction k arbitrary: n)
  case 0
  then show ?case by (subst dec_digits.simps) simp
next
  case (Suc k)
  show ?case
  proof (cases "n < 10")
    case True
    then show ?thesis by (subst dec_digits.simps) simp
  next
    case False
    have "n div 10 < 10 ^ Suc k" using Suc.prems by (simp add: less_mult_imp_div_less)
    from Suc.IH [OF this] False show ?thesis by (subst dec_digits.simps) simp
  qed
qed

lemma is_digit_not_space: "is_digit c \<Longrightarrow> c \<noteq> CHR '' ''"
  by (auto simp: is_digit_def)

lemma Printf_f_no_space: "CHR '' '' \<notin> set (Printf_f N x)"
proof -
  have "c \<noteq> CHR '' ''" if "c \<in> set (dec_digits n)" for c n
    using that dec_digits_all_digits [of n] by (auto simp: list_all_iff is_digit_not_space)
  then show ?thesis by (auto simp: Printf_f_def Let_def)
qed

lemma Printf_f_nonempty: "Printf_f N x \<noteq> []"
  by (simp add: Printf_f_def Let_def dec_digits_nonempty)

lemma split_on_nonempty: "split_on d s \<noteq> []"
  by (induction s) (auto split: list.splits)

lemma split_on_token: "d \<notin> set t \<Longrightarrow> split_on d t = [t]"
  by (induction t) auto

lemma split_on_token_delim: "d \<notin> set t \<Longrightarrow> split_on d (t @ d # r) = t # split_on d r"
  by (induction t) (auto split: list.splits)

lemma ParseIntoArray_token: "d \<notin> set t \<Longrightarrow> t \<noteq> [] \<Longrightarrow> ParseIntoArray t d = [t]"
  by (simp add: ParseIntoArray_def split_on_token)

lemma ParseIntoArray_token_delim:
  "d \<notin> set t \<Longrightarrow> t \<noteq> [] \<Longrightarrow> ParseIntoArray (t @ d # r) d = t # ParseIntoArray r d"
  by (simp add: ParseIntoArray_def split_on_token_delim)

lemma ParseIntoArray_Printf_f:
  "ParseIntoArray (Printf_f N x @ CHR '' '' # r) CHR '' '' = Printf_f N x # ParseIntoArray r CHR '' ''"
  by (rule ParseIntoArray_token_delim) (simp_all add: Printf_f_no_space Printf_f_nonempty)

lemma ParseIntoArray_Printf_f_last:
  "ParseIntoArray (Printf_f N x) CHR '' '' = [Printf_f N x]"
  by (rule ParseIntoArray_token) (simp_all add: Printf_f_no_space Printf_f_nonempty)

lemma ParseIntoArray_zero_tail:
  "ParseIntoArray ''0.0 0.0 0.0 0.0'' CHR '' '' = [''0.0'', ''0.0'', ''0.0'', ''0.0'']"
  by (simp add: ParseIntoArray_def)

lemma not_fixed_10_zero: "\<not> is_fixed_point 10 ''0.0''"
  by (simp add: is_fixed_point_def)

lemma fixed_1_zero: "is_fixed_point 1 ''0.0''"
  by (simp add: is_fixed_point_def is_digit_def)


lemma fixed_point_body:
  assumes "ip \<noteq> []" "list_all is_digit ip" "list_all is_digit fr" "length fr = N"
  shows "N + 2 \<le> length (ip @ CHR ''.'' # fr)
         \<and> (ip @ CHR ''.'' # fr) ! (length (ip @ CHR ''.'' # fr) - Suc N) = CHR ''.''
         \<and> list_all is_digit (take (length (ip @ CHR ''.'' # fr) - Suc N) (ip @ CHR ''.'' # fr))
         \<and> list_all is_digit (drop (length (ip @ CHR ''.'' # fr) - N) (ip @ CHR ''.'' # fr))"
proof -
  have len: "length (ip @ CHR ''.'' # fr) = length ip + Suc N" using assms(4) by simp
  have l1: "length (ip @ CHR ''.'' # fr) - Suc N = length ip" unfolding len by simp
  have l2: "length (ip @ CHR ''.'' # fr) - N = Suc (length ip)" unfolding len by simp
  have "0 < length ip" using assms(1) by simp
  then have "N + 2 \<le> length (ip @ CHR ''.'' # fr)" unfolding len by linarith
  moreover have "(ip @ CHR ''.'' # fr) ! length ip = CHR ''.''" by simp
  moreover have "take (length ip) (ip @ CHR ''.'' # fr) = ip" by simp
  moreover have "drop (Suc (length ip)) (ip @ CHR ''.'' # fr) = fr" by simp
  ultimately show ?thesis unfolding l1 l2 using assms(2,3) by simp
qed

lemma is_fixed_point_unsigned:
  assumes "ip \<noteq> []" "list_all is_digit ip" "list_all is_digit fr" "length fr = N"
  shows "is_fixed_point N (ip @ CHR ''.'' # fr)"
proof -
  obtain c r where ip: "ip = c # r" using assms(1) by (cases ip) auto
  have "is_digit c" using assms(2) ip by simp
  then have c: "c \<noteq> CHR ''-''" by (auto simp: is_digit_def)
  have "(case ip @ CHR ''.'' # fr of [] \<Rightarrow> [] | c # r \<Rightarrow> if c = CHR ''-'' then r else ip @ CHR ''.'' # fr)
        = ip @ CHR ''.'' # fr"
    using c by (simp add: ip)
  then show ?thesis
    unfolding is_fixed_point_def Let_def using fixed_point_body [OF assms] by simp
qed

lemma is_fixed_point_signed:
  assumes "ip \<noteq> []" "list_all is_digit ip" "list_all is_digit fr" "length fr = N"
  shows "is_fixed_point N (CHR ''-'' # ip @ CHR ''.'' # fr)"
  unfolding is_fixed_point_def Let_def using fixed_point_body [OF assms] by simp

lemma Printf_f_fixed_point: "is_fixed_point (Suc k) (Printf_f (Suc k) x)"
proof -
  define n where "n = nat (round_half_even (\<bar>x\<bar> * 10 ^ Suc k))"
  define ip where "ip = dec_digits (n div 10 ^ Suc k)"
  define fp where "fp = dec_digits (n mod 10 ^ Suc k)"
  define fr where "fr = replicate (Suc k - length fp) CHR ''0'' @ fp"
  have lfp: "length fp \<le> Suc k" unfolding fp_def by (rule length_dec_digits) simp
  then have lfr: "length fr = Suc k" by (simp add: fr_def)
  have "list_all is_digit fp" by (simp add: fp_def dec_digits_all_digits)
  moreover have "list_all is_digit (replicate (Suc k - length fp) CHR ''0'')"
    by (simp add: list_all_iff is_digit_def)
  ultimately have dfr: "list_all is_digit fr" by (simp add: fr_def)
  have dip: "list_all is_digit ip" by (simp add: ip_def dec_digits_all_digits)
  have nip: "ip \<noteq> []" by (simp add: ip_def dec_digits_nonempty)
  have eq: "Printf_f (Suc k) x = (if x < 0 then ''-'' else []) @ ip @ CHR ''.'' # fr"
    by (simp add: Printf_f_def Let_def n_def ip_def fp_def fr_def)
  show ?thesis
    unfolding eq
    using is_fixed_point_unsigned [OF nip dip dfr lfr] is_fixed_point_signed [OF nip dip dfr lfr]
    by simp
qed


text \<open>Evaluation of the digit functions on numerals.\<close>

lemma dec_digits_numeral [simp]:
  "dec_digits (numeral k) =
     (if (numeral k :: nat) < 10 then [digit_char (numeral k)]
      else dec_digits (numeral k div 10) @ [digit_char (numeral k mod 10)])"
  by (rule dec_digits.simps)

lemma dec_digits_0 [simp]: "dec_digits 0 = ''0''"
  by (simp add: dec_digits.simps digit_char_def)

lemma dec_digits_1 [simp]: "dec_digits (Suc 0) = ''1''"
  by (simp add: dec_digits.simps digit_char_def)

lemma digit_char_simps [simp]:
  "digit_char 0 = CHR ''0''" "digit_char (Suc 0) = CHR ''1''" "digit_char 2 = CHR ''2''"
  "digit_char 3 = CHR ''3''" "digit_char 4 = CHR ''4''" "digit_char 5 = CHR ''5''"
  "digit_char 6 = CHR ''6''" "digit_char 7 = CHR ''7''" "digit_char 8 = CHR ''8''"
  "digit_char 9 = CHR ''9''"
  by (simp_all add: digit_char_def)

lemma replicate_numeral_Cons [simp]:
  "replicate (numeral k) x = x # replicate (pred_numeral k) x"
  by (simp add: numeral_eq_Suc)

lemma Printf_f10_960: "Printf_f 10 960 = ''960.0000000000''"
  by (simp add: Printf_f_def round_half_even_def)

lemma Printf_f10_540: "Printf_f 10 540 = ''540.0000000000''"
  by (simp add: Printf_f_def round_half_even_def)

lemma Printf_f10_0: "Printf_f 10 0 = ''0.0000000000''"
  by (simp add: Printf_f_def round_half_even_def)

section \<open>COLMAP parameter strings: claim C6\<close>

lemma ParseIntoArray_GetColmapParamsString:
  "ParseIntoArray (GetColmapParamsString c) CHR '' '' =
     map (Printf_f 10) (tracked_params c)
     @ (if CameraModel c = FULL_OPENCV then replicate 4 ''0.0'' else [])"
  by (cases "CameraModel c")
     (simp_all add: GetColmapParamsString_def tracked_params_def ParseIntoArray_Printf_f
        ParseIntoArray_Printf_f_last ParseIntoArray_zero_tail)

lemma length_tracked_params:
  "length (tracked_params c) = (if CameraModel c = FULL_OPENCV then 8 else model_arity (CameraModel c))"
  by (cases "CameraModel c") (simp_all add: tracked_params_def)

text \<open>
  Claim C6, amended. \<open>GetColmapModelId\<close> returns 0, 1, 2, 3, 4 and 6 for the six models. The
  string of \<open>GetColmapParamsString\<close>, split at spaces, has exactly as many tokens as the
  model's arity (3, 4, 4, 5, 8, 12): the tracked parameters of the model in order, each
  printed in fixed-point notation with exactly 10 decimals, and for FULL_OPENCV four more
  tokens for the untracked coefficients, which are the literal \<open>0.0\<close> of the format string
  (one decimal, not ten).
\<close>

theorem C6_colmap_model_id_and_params:
  "GetColmapModelId c =
     (case CameraModel c of SIMPLE_PINHOLE \<Rightarrow> 0 | PINHOLE \<Rightarrow> 1 | SIMPLE_RADIAL \<Rightarrow> 2
        | RADIAL \<Rightarrow> 3 | OPENCV \<Rightarrow> 4 | FULL_OPENCV \<Rightarrow> 6)
   \<and> ParseIntoArray (GetColmapParamsString c) CHR '' '' =
       map (Printf_f 10) (tracked_params c)
       @ (if CameraModel c = FULL_OPENCV then replicate 4 ''0.0'' else [])
   \<and> length (ParseIntoArray (GetColmapParamsString c) CHR '' '') = model_arity (CameraModel c)
   \<and> list_all (is_fixed_point 10) (map (Printf_f 10) (tracked_params c))
   \<and> is_fixed_point 1 ''0.0''"
proof (intro conjI)
  show "GetColmapModelId c =
     (case CameraModel c of SIMPLE_PINHOLE \<Rightarrow> 0 | PINHOLE \<Rightarrow> 1 | SIMPLE_RADIAL \<Rightarrow> 2
        | RADIAL \<Rightarrow> 3 | OPENCV \<Rightarrow> 4 | FULL_OPENCV \<Rightarrow> 6)"
    by (cases "CameraModel c") (simp_all add: GetColmapModelId_def)
  show "ParseIntoArray (GetColmapParamsString c) CHR '' '' =
       map (Printf_f 10) (tracked_params c)
       @ (if CameraModel c = FULL_OPENCV then replicate 4 ''0.0'' else [])"
    by (rule ParseIntoArray_GetColmapParamsString)
  show "length (ParseIntoArray (GetColmapParamsString c) CHR '' '') = model_arity (CameraModel c)"
    unfolding ParseIntoArray_GetColmapParamsString
    by (cases "CameraModel c") (simp_all add: tracked_params_def)
  have "is_fixed_point 10 (Printf_f 10 x)" for x
    using Printf_f_fixed_point [of 9 x] by simp
  then show "list_all (is_fixed_point 10) (map (Printf_f 10) (tracked_params c))"
    by (simp add: list_all_iff)
  show "is_fixed_point 1 ''0.0''"
    by (rule fixed_1_zero)
qed

theorem C6_colmap_model_id_and_params_witness:
  "GetColmapModelId (test_intrinsics RADIAL) = 3
   \<and> ParseIntoArray (GetColmapParamsString (test_intrinsics RADIAL)) CHR '' '' =
       [''960.0000000000'', ''960.0000000000'', ''540.0000000000'',
        ''0.0000000000'', ''0.0000000000'']
   \<and> length (ParseIntoArray (GetColmapParamsString (test_intrinsics RADIAL)) CHR '' '') = 5"
  using C6_colmap_model_id_and_params [of "test_intrinsics RADIAL"]
  by (simp add: test_intrinsics_def tracked_params_def Printf_f10_960 Printf_f10_540 Printf_f10_0)

text \<open>
  The claim as stated has every token of every model printed with 10 decimals. For the
  FULL_OPENCV intrinsics of a 1920 x 1080 camera at 90 degrees the last four tokens are
  \<open>0.0\<close>.
\<close>

theorem C6_full_opencv_counterexample:
  "ParseIntoArray (GetColmapParamsString (test_intrinsics FULL_OPENCV)) CHR '' '' =
     [''960.0000000000'', ''960.0000000000'', ''960.0000000000'', ''540.0000000000'',
      ''0.0000000000'', ''0.0000000000'', ''0.0000000000'', ''0.0000000000'',
      ''0.0'', ''0.0'', ''0.0'', ''0.0'']
   \<and> \<not> list_all (is_fixed_point 10)
         (ParseIntoArray (GetColmapParamsString (test_intrinsics FULL_OPENCV)) CHR '' '')"
  unfolding ParseIntoArray_GetColmapParamsString
  by (simp add: test_intrinsics_def tracked_params_def Printf_f10_960 Printf_f10_540 Printf_f10_0
      not_fixed_10_zero)

section \<open>Binary camera records: claim C1\<close>

text \<open>
  Claim C1 says that the parameter vector written for a camera has the arity of its model.
  \<open>WriteCamerasBinary\<close> has cases for SIMPLE_PINHOLE, PINHOLE and OPENCV only; every other
  model takes the default branch and gets the four PINHOLE parameters. For a RADIAL camera
  the array holds the count, the id, the model id 3, width, height and the four parameters
  \<open>fx, fy, cx, cy\<close> (64 bytes in all), where the model has the five parameters
  \<open>f, cx, cy, k1, k2\<close>; a FULL_OPENCV camera gets four where the model has twelve.
\<close>

theorem C1_binary_params_radial:
  "WriteCamerasBinary_Data [test_camera RADIAL] =
     [U64 1, U32 1, I32 3, U64 1920, U64 1080, F64 960, F64 960, F64 960, F64 540]
   \<and> sum_list (map field_size (WriteCamerasBinary_Data [test_camera RADIAL])) = 8 + 24 + 4 * 8
   \<and> length (WriteCamerasBinary_Params (test_intrinsics RADIAL)) = 4
   \<and> model_arity RADIAL = 5
   \<and> tracked_params (test_intrinsics RADIAL) = [960, 960, 540, 0, 0]
   \<and> length (WriteCamerasBinary_Params (test_intrinsics FULL_OPENCV)) = 4
   \<and> model_arity FULL_OPENCV = 12"
  by (simp add: WriteCamerasBinary_Data_def WriteCamerasBinary_Camera_def
      WriteCamerasBinary_Params_def test_camera_def test_intrinsics_def GetColmapModelId_def
      tracked_params_def)

section \<open>Colour round trip: claim C7\<close>







section \<open>Loops over index ranges: auxiliary facts\<close>

lemma fold_preserves:
  assumes "P s" and "\<And>x t. P t \<Longrightarrow> P (f x t)"
  shows "P (fold f xs s)"
  using assms(1) by (induction xs arbitrary: s) (simp_all add: assms(2))

lemma fold_upt_indexed:
  assumes "P 0 s" and "\<And>i t. i < n \<Longrightarrow> P i t \<Longrightarrow> P (Suc i) (f i t)"
  shows "P n (fold f [0..<n] s)"
  using assms(2)
proof (induction n)
  case 0
  show ?case using assms(1) by simp
next
  case (Suc n)
  have "P n (fold f [0..<n] s)"
    by (rule Suc.IH) (simp add: Suc.prems)
  then have "P (Suc n) (f n (fold f [0..<n] s))"
    by (rule Suc.prems [rotated]) simp
  then show ?case by simp
qed


section \<open>Viewpoint identifiers: claim C10\<close>

lemma ids_consecutive_Nil: "ids_consecutive []"
  by (simp add: ids_consecutive_def)

lemma ids_consecutive_snoc:
  "ids_consecutive vps \<Longrightarrow> ViewpointId vp = int (length vps) \<Longrightarrow> ids_consecutive (vps @ [vp])"
  by (simp add: ids_consecutive_def)

lemma ids_consecutive_nth:
  "ids_consecutive vps \<Longrightarrow> i < length vps \<Longrightarrow> ViewpointId (vps ! i) = int i"
proof -
  assume a: "ids_consecutive vps" and i: "i < length vps"
  have "ViewpointId (vps ! i) = map ViewpointId vps ! i" using i by simp
  also have "\<dots> = map int [0..<length vps] ! i" using a by (simp only: ids_consecutive_def)
  also have "\<dots> = int i" using i by simp
  finally show ?thesis .
qed

lemma OrbitalRings_view_counter:
  "counter_in_step st \<Longrightarrow>
   counter_in_step (OrbitalRings_view E Config RingIdx Elevation RingRadius AzimuthOffset ViewIdx st)"
  by (cases st) (simp add: counter_in_step_def OrbitalRings_view_def Let_def ids_consecutive_snoc)

lemma OrbitalRings_ring_counter:
  "counter_in_step st \<Longrightarrow> counter_in_step (OrbitalRings_ring E Config ElevationStep RingIdx st)"
  unfolding OrbitalRings_ring_def Let_def
  by (rule fold_preserves) (simp_all add: OrbitalRings_view_counter)

lemma GenerateOrbitalRings_ids: "ids_consecutive (GenerateOrbitalRings E Config)"
proof -
  have "counter_in_step
          (fold (OrbitalRings_ring E Config ElevationStep) [0..<nat (NumRings Config)] ([], 0))"
    for ElevationStep
    by (rule fold_preserves)
       (simp_all add: counter_in_step_def ids_consecutive_Nil OrbitalRings_ring_counter [unfolded counter_in_step_def])
  then show ?thesis
    by (simp add: GenerateOrbitalRings_def Let_def counter_in_step_def)
qed

lemma Spherical_point_ids:
  "ids_consecutive vps \<Longrightarrow> ids_consecutive (Spherical_point E Config TotalPoints i vps)"
  by (simp add: Spherical_point_def Let_def ids_consecutive_snoc)

lemma GenerateSpherical_ids: "ids_consecutive (GenerateSpherical E Config)"
  unfolding GenerateSpherical_def Let_def
  by (rule fold_preserves) (simp_all add: ids_consecutive_Nil Spherical_point_ids)

lemma GenerateSpiral_ids: "ids_consecutive (GenerateSpiral E Config)"
proof -
  define n where "n = nat (ViewsPerRing Config * 3)"
  have "ids_consecutive (fold (Spiral_point E Config T) [0..<n] [])
        \<and> length (fold (Spiral_point E Config T) [0..<n] []) = n" for T
    by (rule fold_upt_indexed [where P = "\<lambda>k vps. ids_consecutive vps \<and> length vps = k"])
       (simp_all add: ids_consecutive_Nil Spiral_point_def Let_def ids_consecutive_snoc)
  then show ?thesis
    by (simp add: GenerateSpiral_def Let_def n_def)
qed

lemma Custom_ids:
  "ids_consecutive (fold (Custom_waypoint E Config) [0..<n] [])"
proof -
  have "ids_consecutive (fold (Custom_waypoint E Config) [0..<n] [])
        \<and> length (fold (Custom_waypoint E Config) [0..<n] []) = n"
    by (rule fold_upt_indexed [where P = "\<lambda>k vps. ids_consecutive vps \<and> length vps = k"])
       (simp_all add: ids_consecutive_Nil Custom_waypoint_def Let_def ids_consecutive_snoc)
  then show ?thesis by simp
qed

lemma Panoramic360_direction_counter:
  "counter_in_step st \<Longrightarrow> counter_in_step (Panoramic360_direction Pos PosIdx DirIdx st)"
  by (cases st) (simp add: counter_in_step_def Panoramic360_direction_def Let_def ids_consecutive_snoc)

lemma Panoramic360_position_counter:
  "counter_in_step st \<Longrightarrow> counter_in_step (Panoramic360_position Config PosIdx st)"
  unfolding Panoramic360_position_def Let_def
  by (rule fold_preserves) (simp_all add: Panoramic360_direction_counter)

lemma GeneratePanoramic360_ids: "ids_consecutive (GeneratePanoramic360 Config)"
proof -
  have "counter_in_step
          (fold (Panoramic360_position Config) [0..<nat (ViewsPerRing Config)] ([], 0))"
    by (rule fold_preserves)
       (simp_all add: counter_in_step_def ids_consecutive_Nil Panoramic360_position_counter [unfolded counter_in_step_def])
  then show ?thesis
    by (simp add: GeneratePanoramic360_def counter_in_step_def)
qed

lemma GenerateViewpoints_ids: "ids_consecutive (GenerateViewpoints E Config)"
  by (cases "TrajectoryType Config")
     (simp_all add: GenerateViewpoints_def GenerateOrbitalRings_ids GenerateSpherical_ids
        GenerateSpiral_ids GenerateHemisphere_def GeneratePanoramic360_ids Custom_ids)

text \<open>
  Claim C10. For every configuration and every trajectory type, the viewpoints returned by
  \<open>GenerateViewpoints\<close> carry the identifiers \<open>0, 1, ..., N - 1\<close> in order: the identifier of
  each element is its index in the returned array. This includes the Spherical type,
  where candidates outside the elevation range are skipped.
\<close>

theorem C10_viewpoint_ids:
  "map ViewpointId (GenerateViewpoints E Config)
     = map int [0..<length (GenerateViewpoints E Config)]
   \<and> (\<forall>i < length (GenerateViewpoints E Config).
         ViewpointId (GenerateViewpoints E Config ! i) = int i)"
  using GenerateViewpoints_ids [of E Config]
  by (auto simp: ids_consecutive_nth) (simp add: ids_consecutive_def)

lemma upt_0_3: "[0..<3] = [0, 1, 2]"
  by code_simp

lemma spherical_example_length:
  "length (GenerateViewpoints sample_engine spherical_example) = 1"
  by (simp add: GenerateViewpoints_def GenerateSpherical_def Spherical_point_def Let_def
      spherical_example_def default_config_def sample_engine_def FibonacciSpherePoint_def
      vec_add_def vec_sub_def ZeroVector_def RadiansToDegrees_def upt_0_3)

theorem C10_viewpoint_ids_witness:
  "map ViewpointId (GenerateViewpoints sample_engine spherical_example) = [0]
   \<and> length (GenerateViewpoints sample_engine spherical_example) = 1"
proof -
  have "map ViewpointId (GenerateViewpoints sample_engine spherical_example)
          = map int [0..<length (GenerateViewpoints sample_engine spherical_example)]"
    using C10_viewpoint_ids [of sample_engine spherical_example] by (rule conjunct1)
  then show ?thesis
    by (simp add: spherical_example_length)
qed

section \<open>Orbital rings: claim C5\<close>











section \<open>Image records: claim C3\<close>

















section \<open>Splat validation: claim C8\<close>

lemma position_check_never_fires:
  "\<not> (\<not> ContainsNaN v \<and> \<not> IsFinite (vec_X v))"
  by (simp add: ContainsNaN_def)

lemma ValidateSplats_splat_InvalidPos:
  "InvalidPos (ValidateSplats_splat Splat c) = InvalidPos c"
  by (simp add: ValidateSplats_splat_def Let_def position_check_never_fires)

lemma ValidateSplats_fold_InvalidPos:
  "InvalidPos (fold ValidateSplats_splat Splats c) = InvalidPos c"
  by (induction Splats arbitrary: c) (simp_all add: ValidateSplats_splat_InvalidPos)

lemma ValidateSplats_accepts_every_array:
  "Splats \<noteq> [] \<Longrightarrow> fst (ValidateSplats Splats)"
  by (simp add: ValidateSplats_def Let_def ValidateSplats_fold_InvalidPos)

lemma default_rotation_size:
  "Quat_Size (TQuat (Finite 0) (Finite 0) (Finite 0) (Finite 1)) = Finite 1"
  by (simp add: Quat_Size_def)

text \<open>
  Claim C8 says that a splat with a non-finite position is counted, that a warning is
  produced for it and that the function then returns false. The condition of the position
  check is \<^verbatim>\<open>!ContainsNaN() && !IsFinite(X)\<close>, which no vector satisfies, so the counter
  \<open>InvalidPos\<close> stays 0: for the one-element arrays holding a splat at \<open>(NaN, 0, 0)\<close> and at
  \<open>(+inf, 0, 0)\<close> the function returns true and the only warning is the one about the
  low count.
\<close>

theorem C8_non_finite_position_accepted:
  "position_non_finite nan_splat
   \<and> ValidateSplats [nan_splat]
       = (True, [''Low splat count (1). 10K-1M typical for quality scenes.''])
   \<and> position_non_finite inf_splat
   \<and> ValidateSplats [inf_splat]
       = (True, [''Low splat count (1). 10K-1M typical for quality scenes.''])"
  by (simp add: position_non_finite_def nan_splat_def inf_splat_def default_splat_def
      ValidateSplats_def ValidateSplats_splat_def Let_def ContainsNaN_def default_rotation_size
      dbl_sub_def dbl_greater_def Printf_d_def)

section \<open>Empty arrays and malformed headers: claim C9\<close>

























end
